theory Spec2Isabelle
  imports Complex_Main
begin

section \<open>Data model\<close>

text \<open>
  A two-dimensional numpy array is a list of rows. Array entries are modelled as exact
  reals: the rounding of IEEE double arithmetic, infinities and NaN are not part of the
  model. Where numpy would produce a non-finite entry (a division by zero inside an
  array) the model returns \<open>NonFinite\<close>, which is a marker of the model and not an
  exception of the program.
\<close>

type_synonym ndarray = "real list list"

datatype py_error =
    AssertionError
  | ValueError
  | ZeroDivisionError
  | AttributeError
  | OSError
  | NonFinite

fun bind_err :: "py_error + 'a \<Rightarrow> ('a \<Rightarrow> py_error + 'b) \<Rightarrow> py_error + 'b" where
  "bind_err (Inl e) f = Inl e"
| "bind_err (Inr v) f = f v"

text \<open>\<open>numpy.allclose\<close> with a purely absolute tolerance, on arrays of one shape.\<close>

definition row_close :: "real \<Rightarrow> real list \<Rightarrow> real list \<Rightarrow> bool" where
  "row_close tol r s \<longleftrightarrow> length r = length s \<and> list_all2 (\<lambda>a b. \<bar>a - b\<bar> \<le> tol) r s"

definition array_close :: "real \<Rightarrow> ndarray \<Rightarrow> ndarray \<Rightarrow> bool" where
  "array_close tol A B \<longleftrightarrow> list_all2 (row_close tol) A B"

section \<open>Closure\<close>

text \<open>
  Modelled from the spec: \<open>close\<close> of \<open>pyrolite.comp.codata\<close> is imported by
  \<open>plot.py\<close> but its source is not part of the files at hand. The spec describes it as
  the normalisation that forces each row to sum to 1: every entry is divided by the sum
  of its row. A row whose sum is 0 has no finite closure.
\<close>

definition close_row :: "real list \<Rightarrow> real list" where
  "close_row r = map (\<lambda>x. x / sum_list r) r"

definition close :: "ndarray \<Rightarrow> py_error + ndarray" where
  "close X = (if \<exists>r \<in> set X. sum_list r = 0 then Inl NonFinite else Inr (map close_row X))"

section \<open>Affine transforms and the barycentric/Cartesian converter\<close>

text \<open>
  \<open>affine_transform mtx\<close> returns the closure \<open>tfm\<close>; \<open>tfm data\<close> takes the first two
  columns of \<open>data\<close>, appends a row of ones to their transpose, multiplies by \<open>mtx\<close> and
  keeps the first two rows of the product. The result has shape \<open>(2, n)\<close>.
\<close>

definition affine_row :: "real list \<Rightarrow> real list \<Rightarrow> real" where
  "affine_row m r = m ! 0 * r ! 0 + m ! 1 * r ! 1 + m ! 2 * 1"

definition affine_transform :: "ndarray \<Rightarrow> ndarray \<Rightarrow> ndarray" where
  "affine_transform mtx data = map (\<lambda>m. map (affine_row m) data) (take 2 mtx)"

definition ABC_to_xy :: "ndarray \<Rightarrow> real \<Rightarrow> real \<Rightarrow> py_error + ndarray" where
  "ABC_to_xy ABC xscale yscale =
     (if \<exists>r \<in> set ABC. length r \<noteq> 3 then Inl AssertionError
      else
        let scale = affine_transform [[xscale, 0, 0], [0, yscale, 0], [0, 0, 1]];
            shear = affine_transform [[1, 1 / 2, 0], [0, 1, 0], [0, 0, 1]]
        in bind_err (close ABC) (\<lambda>c.
             let xy = scale (transpose (shear c)) in Inr (transpose xy)))"

definition xy_to_ABC :: "ndarray \<Rightarrow> real \<Rightarrow> real \<Rightarrow> py_error + ndarray" where
  "xy_to_ABC xy xscale yscale =
     (if \<exists>r \<in> set xy. length r \<noteq> 2 then Inl AssertionError
      else if xscale = 0 \<or> yscale = 0 then Inl ZeroDivisionError
      else
        let scale = affine_transform [[1 / xscale, 0, 0], [0, 1 / yscale, 0], [0, 0, 1]];
            shear = affine_transform [[1, - 1 / 2, 0], [0, 1, 0], [0, 0, 1]];
            sh = shear (transpose (scale xy));
            xs = sh ! 0;
            ys = sh ! 1;
            zs = map2 (\<lambda>x y. 1 - (x + y)) xs ys
        in Inr (transpose [xs, ys, zs]))"

section \<open>Percentile contour solver\<close>

text \<open>
  \<open>numpy.linspace start stop num\<close>: \<open>num\<close> evenly spaced samples, both ends included.
\<close>

definition linspace :: "real \<Rightarrow> real \<Rightarrow> nat \<Rightarrow> real list" where
  "linspace start stop num =
     (if num = 1 then [start]
      else map (\<lambda>i. start + real i * ((stop - start) / real (num - 1))) [0..<num])"

text \<open>
  One entry of \<open>((z >= t[:, None, None]) * z).sum(axis=(1, 2))\<close>: the sum of the cells of
  \<open>z\<close> that reach the threshold.
\<close>

definition integral_at :: "ndarray \<Rightarrow> real \<Rightarrow> real" where
  "integral_at z t = sum_list (map (\<lambda>v. if v \<ge> t then v else 0) (concat z))"

text \<open>
  \<open>scipy.interpolate.interp1d(x, y)\<close> with its defaults (linear, \<open>bounds_error\<close> on,
  \<open>assume_sorted\<close> off). The constructor sorts the sample points by \<open>x\<close> with a stable
  sort and rejects fewer than two points; a call first interpolates and then raises
  \<open>ValueError\<close> when a query lies below the first or above the last sample. For real
  one-dimensional data the interpolation is \<open>numpy.interp\<close>: with \<open>j\<close> the last index
  whose \<open>x\<close> does not exceed the query, the value is \<open>y[j]\<close> when \<open>j\<close> is the last index
  or \<open>x[j]\<close> equals the query, and the point on the chord from sample \<open>j\<close> to sample
  \<open>j + 1\<close> otherwise.
\<close>

fun np_interp :: "(real \<times> real) list \<Rightarrow> real \<Rightarrow> real" where
  "np_interp [(x0, y0)] q = y0"
| "np_interp ((x0, y0) # (x1, y1) # ps) q =
     (if x1 \<le> q then np_interp ((x1, y1) # ps) q
      else if x0 = q then y0
      else (y1 - y0) / (x1 - x0) * (q - x0) + y0)"

definition interp1d :: "real list \<Rightarrow> real list \<Rightarrow> py_error + (real \<times> real) list" where
  "interp1d x y =
     (if length x = length y \<and> 2 \<le> length x then Inr (sort_key fst (zip x y))
      else Inl ValueError)"

definition interp1d_call :: "(real \<times> real) list \<Rightarrow> real list \<Rightarrow> py_error + real list" where
  "interp1d_call f x_new =
     (let y_new = map (np_interp f) x_new
      in if \<exists>q \<in> set x_new. q < fst (hd f) then Inl ValueError
         else if \<exists>q \<in> set x_new. q > fst (last f) then Inl ValueError
         else Inr y_new)"

text \<open>\<open>numpy.isclose a b\<close> with the default tolerances \<open>rtol = 1e-5\<close>, \<open>atol = 1e-8\<close>.\<close>

definition isclose :: "real \<Rightarrow> real \<Rightarrow> bool" where
  "isclose a b \<longleftrightarrow> \<bar>a - b\<bar> \<le> 1 / 10 ^ 8 + 1 / 10 ^ 5 * \<bar>b\<bar>"

text \<open>A contour label: a percentile, or the string \<open>"min"\<close>.\<close>

datatype label = Percentile real | MinLabel

text \<open>
  The result of the solver: labels, contour heights, and the messages passed to
  \<open>logger.debug\<close> on the way.
\<close>

record contours =
  labels :: "label list"
  heights :: "real list"
  logged :: "string list"

definition below_minimum_message :: string where
  "below_minimum_message =
     ''Percentile contour below minimum for given resolutionReturning Minimium.''"

definition percentile_contour_values_from_meshz ::
  "ndarray \<Rightarrow> real list \<Rightarrow> nat \<Rightarrow> py_error + contours" where
  "percentile_contour_values_from_meshz z percentiles resolution =
     (let percentiles = rev (sort percentiles)
      in if concat z = [] then Inl ValueError
         else
           let t = linspace 0 (Max (set (concat z))) resolution;
               integral = map (integral_at z) t
           in bind_err (interp1d integral t) (\<lambda>f.
                case interp1d_call f (map (\<lambda>p. p * sum_list (concat z)) percentiles) of
                  Inr t_contours \<Rightarrow>
                    Inr \<lparr>labels = map Percentile percentiles, heights = t_contours,
                         logged = []\<rparr>
                | Inl ValueError \<Rightarrow>
                    (let non_one = filter (\<lambda>v. \<not> isclose v 1) integral
                     in if non_one = [] then Inl ValueError
                        else bind_err (interp1d_call f [Max (set non_one)]) (\<lambda>c.
                               Inr \<lparr>labels = [MinLabel], heights = c,
                                    logged = [below_minimum_message]\<rparr>))
                | Inl e \<Rightarrow> Inl e))"

text \<open>
  Names for the intermediate values of the solver: the threshold grid \<open>t\<close>, the integrals
  \<open>integral\<close>, the interpolant \<open>f\<close> built from them, and \<open>z.sum()\<close>.
\<close>

definition contour_thresholds :: "ndarray \<Rightarrow> nat \<Rightarrow> real list" where
  "contour_thresholds z resolution = linspace 0 (Max (set (concat z))) resolution"

definition contour_integrals :: "ndarray \<Rightarrow> nat \<Rightarrow> real list" where
  "contour_integrals z resolution = map (integral_at z) (contour_thresholds z resolution)"

definition contour_interpolant :: "ndarray \<Rightarrow> nat \<Rightarrow> (real \<times> real) list" where
  "contour_interpolant z resolution =
     sort_key fst (zip (contour_integrals z resolution) (contour_thresholds z resolution))"

definition total_mass :: "ndarray \<Rightarrow> real" where
  "total_mass z = sum_list (concat z)"

section \<open>Ternary heatmap: margin and bounds\<close>






section \<open>Meltsfile codec: values and strings\<close>

text \<open>
  A value held by a series or printed into a meltsfile: a string, an integer, a float or
  a missing value (NaN, None). A float is represented by the decimal that Python prints
  for it: \<open>PyFloat m e\<close> is \<open>m / 10 ^ e\<close> with \<open>e \<ge> 1\<close> decimals, so \<open>50.2\<close> is
  \<open>PyFloat 502 1\<close> and \<open>1200.0\<close> is \<open>PyFloat 12000 1\<close>. Floats that Python prints with
  an exponent are outside the model.
\<close>

datatype pyval = PyStr string | PyInt int | PyFloat int nat | PyNaN

definition digit_char :: "nat \<Rightarrow> char" where
  "digit_char d = char_of (48 + d)"

fun str_nat :: "nat \<Rightarrow> string" where
  "str_nat n = (if n < 10 then [digit_char n] else str_nat (n div 10) @ [digit_char (n mod 10)])"

definition str_int :: "int \<Rightarrow> string" where
  "str_int i = (if i < 0 then CHR ''-'' # str_nat (nat (- i)) else str_nat (nat i))"

text \<open>A digit string padded with leading zeros to at least \<open>w\<close> characters.\<close>

definition zero_pad :: "nat \<Rightarrow> string \<Rightarrow> string" where
  "zero_pad w s = replicate (w - length s) CHR ''0'' @ s"

definition str_float :: "int \<Rightarrow> nat \<Rightarrow> string" where
  "str_float m e =
     (let ds = zero_pad (e + 1) (str_nat (nat \<bar>m\<bar>));
          k = length ds - e
      in (if m < 0 then [CHR ''-''] else []) @ take k ds @ [CHR ''.''] @ drop k ds)"

text \<open>\<open>"{}".format(v)\<close>.\<close>

fun format_val :: "pyval \<Rightarrow> string" where
  "format_val (PyStr s) = s"
| "format_val (PyInt i) = str_int i"
| "format_val (PyFloat m e) = str_float m e"
| "format_val PyNaN = ''nan''"

text \<open>\<open>pandas.isnull\<close> on a scalar.\<close>

fun isnull :: "pyval \<Rightarrow> bool" where
  "isnull PyNaN = True"
| "isnull _ = False"

text \<open>
  Python's string methods on ASCII text. \<open>str.strip\<close> and \<open>str.split\<close> without argument
  work on whitespace; \<open>str.splitlines\<close> breaks at line boundaries, a carriage return
  followed by a line feed counting once.
\<close>

definition is_space :: "char \<Rightarrow> bool" where
  "is_space c \<longleftrightarrow> c \<in> set [CHR 0x20, CHR 0x09, CHR 0x0A, CHR 0x0B, CHR 0x0C, CHR 0x0D,
     CHR 0x1C, CHR 0x1D, CHR 0x1E, CHR 0x1F]"

definition is_linebreak :: "char \<Rightarrow> bool" where
  "is_linebreak c \<longleftrightarrow> c \<in> set [CHR 0x0A, CHR 0x0B, CHR 0x0C, CHR 0x0D, CHR 0x1C, CHR 0x1D,
     CHR 0x1E]"

definition strip :: "string \<Rightarrow> string" where
  "strip s = rev (dropWhile is_space (rev (dropWhile is_space s)))"

definition lower_char :: "char \<Rightarrow> char" where
  "lower_char c =
     (if of_char (CHR ''A'') \<le> (of_char c :: nat) \<and> (of_char c :: nat) \<le> of_char (CHR ''Z'')
      then char_of (of_char c + 32 :: nat) else c)"

definition lower :: "string \<Rightarrow> string" where
  "lower s = map lower_char s"

fun splitlines_from :: "string \<Rightarrow> string \<Rightarrow> string list" where
  "splitlines_from cur [] = (if cur = [] then [] else [cur])"
| "splitlines_from cur [c] = (if is_linebreak c then [cur] else [cur @ [c]])"
| "splitlines_from cur (c # d # cs) =
     (if c = CHR 0x0D \<and> d = CHR 0x0A then cur # splitlines_from [] cs
      else if is_linebreak c then cur # splitlines_from [] (d # cs)
      else splitlines_from (cur @ [c]) (d # cs))"

definition splitlines :: "string \<Rightarrow> string list" where
  "splitlines s = splitlines_from [] s"

text \<open>\<open>s.split(": ")\<close>.\<close>

fun split_colon_from :: "string \<Rightarrow> string \<Rightarrow> string list" where
  "split_colon_from cur [] = [cur]"
| "split_colon_from cur [c] = [cur @ [c]]"
| "split_colon_from cur (c # d # cs) =
     (if c = CHR '':'' \<and> d = CHR '' '' then cur # split_colon_from [] cs
      else split_colon_from (cur @ [c]) (d # cs))"

definition split_colon :: "string \<Rightarrow> string list" where
  "split_colon s = split_colon_from [] s"

text \<open>\<open>s.split()\<close>.\<close>

fun split_ws_from :: "string \<Rightarrow> string \<Rightarrow> string list" where
  "split_ws_from cur [] = (if cur = [] then [] else [cur])"
| "split_ws_from cur (c # cs) =
     (if is_space c then (if cur = [] then split_ws_from [] cs else cur # split_ws_from [] cs)
      else split_ws_from (cur @ [c]) cs)"

definition split_ws :: "string \<Rightarrow> string list" where
  "split_ws s = split_ws_from [] s"

text \<open>\<open>sep.join(lines)\<close>.\<close>

fun join :: "string \<Rightarrow> string list \<Rightarrow> string" where
  "join sep [] = []"
| "join sep [l] = l"
| "join sep (l # m # ls) = l @ sep @ join sep (m # ls)"

section \<open>Meltsfile codec: writer\<close>

text \<open>
  A series is the list of its (index, value) pairs in order; the index entries are
  strings and are taken to be distinct, so that \<open>ser[k]\<close> is a scalar. The helper
  \<open>to_ser\<close> is the identity on a series. The tables \<open>__common_oxides__\<close> and
  \<open>__common_elements__\<close> come from a module that is not among the files at hand; they
  are parameters of the writer.
\<close>

type_synonym series = "(string \<times> pyval) list"

definition index :: "series \<Rightarrow> string list" where
  "index ser = map fst ser"

definition getitem :: "series \<Rightarrow> string \<Rightarrow> pyval" where
  "getitem ser k = the (map_of ser k)"

text \<open>
  The lines for the major oxides and for the trace elements: the index entries found in
  the table and not excluded, each with its value unless that is missing.
\<close>

definition composition_lines :: "string \<Rightarrow> string list \<Rightarrow> string list \<Rightarrow> series \<Rightarrow> string list" where
  "composition_lines prefix table exclude ser =
     (let chosen = filter (\<lambda>i. i \<in> set table \<and> i \<notin> set exclude) (index ser)
      in concat (map (\<lambda>k. if isnull (getitem ser k) then []
                            else [prefix @ k @ '' '' @ format_val (getitem ser k)])
                     chosen))"

definition condition_keys :: "string list" where
  "condition_keys =
     concat (map (\<lambda>param. map (\<lambda>subparam. join '' '' [subparam, param])
                                [''Initial'', ''Final'', ''Increment''])
                 [''Temperature'', ''Pressure''])"

definition condition_lines :: "series \<Rightarrow> string list" where
  "condition_lines ser =
     concat (map (\<lambda>k. if k \<in> set (index ser) \<and> \<not> isnull (getitem ser k)
                       then [k @ '': '' @ format_val (getitem ser k)] else [])
                 condition_keys)"

definition path_lines :: "series \<Rightarrow> string list" where
  "path_lines ser =
     concat (map (\<lambda>k. case filter (\<lambda>par. lower par = lower k) (index ser) of
                         [] \<Rightarrow> []
                       | par # _ \<Rightarrow>
                           if isnull (getitem ser par) then []
                           else [k @ '': '' @ format_val (getitem ser par)])
                 [''dp/dt'', ''log fo2 path'', ''log fo2 delta''])"

definition title_key :: "series \<Rightarrow> string" where
  "title_key ser = (if ''Title'' \<in> set (index ser) then ''Title'' else ''title'')"

definition meltsfile_lines ::
  "string list \<Rightarrow> string list \<Rightarrow> series \<Rightarrow> bool \<Rightarrow> string list \<Rightarrow> string list \<Rightarrow> string list" where
  "meltsfile_lines oxides elements ser writetraces modes exclude =
     [''Title: '' @ format_val (getitem ser (title_key ser))]
     @ composition_lines ''Initial Composition: '' oxides exclude ser
     @ (if writetraces then composition_lines ''Initial Trace: '' elements exclude ser else [])
     @ condition_lines ser
     @ path_lines ser
     @ map (\<lambda>m. ''Mode: '' @ m) modes"

definition to_meltsfile ::
  "string list \<Rightarrow> string list \<Rightarrow> series \<Rightarrow> string \<Rightarrow> bool \<Rightarrow> string list \<Rightarrow> string list
     \<Rightarrow> py_error + string" where
  "to_meltsfile oxides elements ser linesep writetraces modes exclude =
     (if ''Title'' \<in> set (index ser) \<or> ''title'' \<in> set (index ser)
      then Inr (join linesep (meltsfile_lines oxides elements ser writetraces modes exclude))
      else Inl AssertionError)"

section \<open>Meltsfile codec: reader\<close>

text \<open>
  Modelled from the spec: \<open>to_numeric\<close> of \<open>pyrolite.util.pd\<close> is imported by
  \<open>meltsfile.py\<close> but its source is not among the files at hand. The spec describes the
  reader's use of it as numeric coercion where possible, else the raw string is left.
  The numerals recognised here are optionally signed decimal integers and optionally
  signed decimals with digits on both sides of the point.
\<close>

definition is_digit :: "char \<Rightarrow> bool" where
  "is_digit c \<longleftrightarrow> of_char (CHR ''0'') \<le> (of_char c :: nat) \<and> (of_char c :: nat) \<le> of_char (CHR ''9'')"

definition nat_of_digits :: "string \<Rightarrow> nat" where
  "nat_of_digits s = foldl (\<lambda>n c. 10 * n + (of_char c - 48)) 0 s"

fun trim_decimals :: "nat \<Rightarrow> nat \<Rightarrow> nat \<times> nat" where
  "trim_decimals m 0 = (m, 0)"
| "trim_decimals m (Suc 0) = (m, Suc 0)"
| "trim_decimals m (Suc (Suc e)) =
     (if m mod 10 = 0 then trim_decimals (m div 10) (Suc e) else (m, Suc (Suc e)))"

definition parse_unsigned :: "string \<Rightarrow> (int \<Rightarrow> pyval) option" where
  "parse_unsigned s =
     (let ip = takeWhile is_digit s; rest = dropWhile is_digit s
      in if ip = [] then None
         else if rest = [] then Some (\<lambda>sg. PyInt (sg * int (nat_of_digits ip)))
         else if hd rest = CHR ''.'' \<and> tl rest \<noteq> [] \<and> list_all is_digit (tl rest)
         then (case trim_decimals (nat_of_digits (ip @ tl rest)) (length (tl rest)) of
                 (m, e) \<Rightarrow> Some (\<lambda>sg. PyFloat (sg * int m) e))
         else None)"

definition to_numeric :: "string \<Rightarrow> pyval" where
  "to_numeric s =
     (case (if s \<noteq> [] \<and> hd s = CHR ''-'' then map_option (\<lambda>f. f (- 1)) (parse_unsigned (tl s))
            else map_option (\<lambda>f. f 1) (parse_unsigned s)) of
        Some v \<Rightarrow> v
      | None \<Rightarrow> PyStr s)"

text \<open>
  The argument of \<open>from_meltsfile\<close>: an in-memory buffer, or anything else, which is
  handed to \<open>open\<close>. \<open>Text\<close> is a \<open>str\<close> and \<open>PathObj\<close> a \<open>pathlib.Path\<close>. What
  \<open>open\<close> does depends on the file system, a parameter of the reader: it opens a
  readable file, raises \<open>FileNotFoundError\<close>, or raises another \<open>OSError\<close>.
\<close>

datatype source = BytesIO string | StringIO string | Text string | PathObj string

datatype open_result = Opened string | FileNotFound | OtherOSError

type_synonym filesystem = "string \<Rightarrow> open_result"

datatype read_error = PyError py_error | IndexError | KeyError

text \<open>
  The records of the reader: one list of cells per non-blank line. A line naming an
  initial composition or trace is replaced by the whitespace-separated words of its
  second field; indexing a missing second field raises \<open>IndexError\<close>.
\<close>

definition format_line :: "string list \<Rightarrow> read_error + string list" where
  "format_line args =
     (if lower (strip (args ! 0)) \<in> set [''initial composition'', ''initial trace'']
      then (if length args < 2 then Inl IndexError else Inr (split_ws (strip (args ! 1))))
      else Inr (map strip args))"

fun collect :: "(read_error + 'a) list \<Rightarrow> read_error + 'a list" where
  "collect [] = Inr []"
| "collect (Inl e # rs) = Inl e"
| "collect (Inr v # rs) = (case collect rs of Inl e \<Rightarrow> Inl e | Inr vs \<Rightarrow> Inr (v # vs))"

text \<open>
  \<open>DataFrame.from_records(fmtlines).set_index(0, drop=True)[1]\<close> followed by the numeric
  coercion: column 0 becomes the index and column 1 the values; short records are padded
  with missing cells, and a frame without column 1 raises \<open>KeyError\<close>.
\<close>

definition cell :: "string list \<Rightarrow> nat \<Rightarrow> string option" where
  "cell row i = (if i < length row then Some (row ! i) else None)"

definition records_to_series :: "string list list \<Rightarrow> read_error + (string option \<times> pyval) list" where
  "records_to_series rows =
     (if list_ex (\<lambda>row. 2 \<le> length row) rows
      then Inr (map (\<lambda>row. (cell row 0, case cell row 1 of None \<Rightarrow> PyNaN
                                                         | Some s \<Rightarrow> to_numeric s)) rows)
      else Inl KeyError)"

definition parse_meltsfile :: "string \<Rightarrow> read_error + (string option \<times> pyval) list" where
  "parse_meltsfile file =
     (let lines = map split_colon (filter (\<lambda>line. strip line \<noteq> []) (splitlines file))
      in case collect (map format_line lines) of
           Inl e \<Rightarrow> Inl e
         | Inr fmtlines \<Rightarrow> records_to_series fmtlines)"

definition from_meltsfile :: "filesystem \<Rightarrow> source \<Rightarrow> read_error + (string option \<times> pyval) list" where
  "from_meltsfile fs filename =
     (case filename of
        BytesIO b \<Rightarrow> parse_meltsfile b
      | StringIO s \<Rightarrow> parse_meltsfile s
      | Text p \<Rightarrow>
          (case fs p of
             Opened content \<Rightarrow> Inl (PyError AttributeError)
           | FileNotFound \<Rightarrow> parse_meltsfile p
           | OtherOSError \<Rightarrow> Inl (PyError OSError))
      | PathObj p \<Rightarrow>
          (case fs p of
             Opened content \<Rightarrow> Inl (PyError AttributeError)
           | FileNotFound \<Rightarrow> Inl (PyError AttributeError)
           | OtherOSError \<Rightarrow> Inl (PyError OSError)))"

section \<open>Meltsfile codec: the round trip\<close>

text \<open>
  The record of the round-trip scenario, the writer followed by the reader on the text
  passed as a plain string that names no file, and the lines the writer can derive from
  one field of a series.
\<close>

definition written_for :: "string \<Rightarrow> pyval \<Rightarrow> string list" where
  "written_for k v =
     (if k = ''Title'' \<or> k = ''title'' then [''Title: '' @ format_val v] else [])
     @ [''Initial Composition: '' @ k @ '' '' @ format_val v,
        ''Initial Trace: '' @ k @ '' '' @ format_val v,
        k @ '': '' @ format_val v]
     @ map (\<lambda>c. c @ '': '' @ format_val v)
         (filter (\<lambda>c. lower k = lower c) [''dp/dt'', ''log fo2 path'', ''log fo2 delta''])"

definition record_ABC :: series where
  "record_ABC = [(''Title'', PyStr ''A''), (''SiO2'', PyFloat 502 1),
                 (''Initial Temperature'', PyInt 1200)]"

definition write_then_read ::
  "string list \<Rightarrow> string list \<Rightarrow> series \<Rightarrow> string \<Rightarrow> bool
     \<Rightarrow> read_error + (string option \<times> pyval) list" where
  "write_then_read oxides elements ser linesep writetraces =
     (case to_meltsfile oxides elements ser linesep writetraces [] [] of
        Inl e \<Rightarrow> Inl (PyError e)
      | Inr text \<Rightarrow> from_meltsfile (\<lambda>p. FileNotFound) (Text text))"

section \<open>Properties of the converter\<close>

lemma transpose_two_maps:
  "transpose [map f xs, map g xs] = map (\<lambda>x. [f x, g x]) xs"
  by (induction xs) simp_all

lemma transpose_three_maps:
  "transpose [map f xs, map g xs, map h xs] = map (\<lambda>x. [f x, g x, h x]) xs"
  by (induction xs) simp_all

lemma affine_transform_rows:
  "affine_transform [m0, m1, m2] data = [map (affine_row m0) data, map (affine_row m1) data]"
  by (simp add: affine_transform_def)

lemma xy_to_ABC_rows:
  assumes "\<forall>r \<in> set xy. length r = 2" "xscale \<noteq> 0" "yscale \<noteq> 0"
  shows "xy_to_ABC xy xscale yscale =
    Inr (map (\<lambda>r. [r ! 0 / xscale - r ! 1 / yscale / 2, r ! 1 / yscale,
                    1 - (r ! 0 / xscale - r ! 1 / yscale / 2 + r ! 1 / yscale)]) xy)"
proof -
  have zs: "map2 (\<lambda>x y. 1 - (x + y)) (map f xy) (map g xy) = map (\<lambda>r. 1 - (f r + g r)) xy"
    for f g :: "real list \<Rightarrow> real"
    by (induction xy) simp_all
  show ?thesis
    using assms
    by (simp add: xy_to_ABC_def Let_def affine_transform_rows transpose_two_maps zs
        transpose_three_maps affine_row_def o_def)
qed

lemma ABC_to_xy_rows:
  assumes "\<forall>r \<in> set ABC. length r = 3" "\<forall>r \<in> set ABC. sum_list r \<noteq> 0"
  shows "ABC_to_xy ABC xscale yscale =
    Inr (map (\<lambda>r. [xscale * (r ! 0 / sum_list r + (r ! 1 / sum_list r) / 2),
                    yscale * (r ! 1 / sum_list r)]) ABC)"
proof -
  have len: "r \<in> set ABC \<Longrightarrow> close_row r ! 0 = r ! 0 / sum_list r \<and> close_row r ! 1 = r ! 1 / sum_list r" for r
    using assms(1) by (auto simp: close_row_def)
  show ?thesis
    using assms len
    by (simp add: ABC_to_xy_def close_def Let_def affine_transform_rows transpose_two_maps
        affine_row_def o_def)
qed

lemma row3: "length p = 3 \<Longrightarrow> p = [p ! 0, p ! 1, p ! 2]"
  by (cases p; cases "tl p"; cases "tl (tl p)") auto

lemma row3_sum: "length (p :: real list) = 3 \<Longrightarrow> sum_list p = p ! 0 + p ! 1 + p ! 2"
  by (cases p; cases "tl p"; cases "tl (tl p)") auto

lemma array_close_refl: "0 \<le> tol \<Longrightarrow> array_close tol A A"
  by (simp add: array_close_def row_close_def list_all2_same)

text \<open>
  On rows that already sum to 1 the closure inside \<open>ABC_to_xy\<close> changes nothing, the two
  scalings cancel and so do the two shears: the round trip is the identity.
\<close>

lemma roundtrip_exact:
  assumes "\<forall>p \<in> set P. length p = 3 \<and> sum_list p = 1" "s \<noteq> 0"
  shows "bind_err (ABC_to_xy P 1 s) (\<lambda>xy. xy_to_ABC xy 1 s) = Inr P"
proof -
  have a: "\<forall>r \<in> set P. length r = 3" and b: "\<forall>r \<in> set P. sum_list r \<noteq> 0"
    using assms(1) by auto
  have rows: "map (\<lambda>r. [r ! 0 - r ! 1 / 2 + r ! 1 / 2 , r ! 1, 1 - (r ! 0  + r ! 1)]) P = P"
  proof (rule map_idI)
    fix p assume p: "p \<in> set P"
    then have l: "length p = 3" and "sum_list p = 1" using assms(1) by auto
    then have "p ! 0 + p ! 1 + p ! 2 = 1" using row3_sum [of p] by simp
    then have "[p ! 0 - p ! 1 / 2 + p ! 1 / 2, p ! 1, 1 - (p ! 0 + p ! 1)] = [p ! 0, p ! 1, p ! 2]"
      by simp
    then show "[p ! 0 - p ! 1 / 2 + p ! 1 / 2, p ! 1, 1 - (p ! 0 + p ! 1)] = p"
      using row3 [OF l] by simp
  qed
  have "bind_err (ABC_to_xy P 1 s) (\<lambda>xy. xy_to_ABC xy 1 s) =
    Inr (map (\<lambda>r. [r ! 0 - r ! 1 / 2 + r ! 1 / 2 , r ! 1, 1 - (r ! 0  + r ! 1)]) P)"
    using assms
    apply (simp add: ABC_to_xy_rows [OF a b])
    apply (subst xy_to_ABC_rows)
    apply (auto simp: o_def algebra_simps)
    done
  then show ?thesis using rows by simp
qed

text \<open>
  Claim C1. For every array of compositions with three positive parts summing to 1 and
  for \<open>yscale\<close> either 1 or \<open>sqrt 3 / 2\<close>, \<open>xy_to_ABC (ABC_to_xy p yscale) yscale\<close> returns
  an array that agrees with \<open>p\<close> within \<open>1e-9\<close> in every entry. In exact arithmetic the
  two arrays are equal.
\<close>

theorem ternary_roundtrip:
  assumes "\<forall>p \<in> set P. length p = 3 \<and> (\<forall>v \<in> set p. 0 < v) \<and> sum_list p = 1"
    and "s = 1 \<or> s = sqrt 3 / 2"
  shows "\<exists>Q. bind_err (ABC_to_xy P 1 s) (\<lambda>xy. xy_to_ABC xy 1 s) = Inr Q
           \<and> array_close (1 / 10 ^ 9) Q P"
proof -
  have "s \<noteq> 0" using assms(2) by auto
  then have "bind_err (ABC_to_xy P 1 s) (\<lambda>xy. xy_to_ABC xy 1 s) = Inr P"
    using assms(1) roundtrip_exact by blast
  then show ?thesis by (simp add: array_close_refl)
qed

theorem ternary_roundtrip_witness:
  "list_all (\<lambda>p. length p = 3 \<and> list_all (\<lambda>v. 0 < v) p \<and> sum_list p = 1)
      [[8 / 10, 1 / 10, 1 / 10], [33 / 100, 33 / 100, 34 / 100 :: real]]
   \<and> (sqrt 3 / 2 = 1 \<or> sqrt 3 / 2 = sqrt 3 / 2)
   \<and> (\<exists>Q. bind_err (ABC_to_xy [[8 / 10, 1 / 10, 1 / 10], [33 / 100, 33 / 100, 34 / 100]] 1 (sqrt 3 / 2))
              (\<lambda>xy. xy_to_ABC xy 1 (sqrt 3 / 2)) = Inr Q
          \<and> array_close (1 / 10 ^ 9) Q [[8 / 10, 1 / 10, 1 / 10], [33 / 100, 33 / 100, 34 / 100]])"
proof -
  have h: "\<forall>p \<in> set [[8 / 10, 1 / 10, 1 / 10], [33 / 100, 33 / 100, 34 / 100 :: real]].
      length p = 3 \<and> (\<forall>v \<in> set p. 0 < v) \<and> sum_list p = 1"
    by simp
  have s: "sqrt 3 / 2 = 1 \<or> sqrt 3 / 2 = sqrt 3 / 2" by simp
  show ?thesis using s ternary_roundtrip [OF h s] by simp
qed



section \<open>Properties of the meltsfile reader\<close>

text \<open>
  Claim C10. When the argument names a file that \<open>open\<close> can open, \<open>from_meltsfile\<close>
  raises \<open>AttributeError\<close>, for a \<open>str\<close> and for a \<open>pathlib.Path\<close> alike, because
  \<open>read\<close> is called on the argument and not on the file handle. A \<open>BytesIO\<close> or
  \<open>StringIO\<close> buffer is parsed, and so is a \<open>str\<close> for which opening fails with
  \<open>FileNotFoundError\<close>: the string itself is taken as the meltsfile text. Nothing else
  is parsed: whenever a series is returned, the argument was one of these three.
\<close>

theorem from_meltsfile_sources:
  "(fs p = Opened content \<longrightarrow>
      from_meltsfile fs (Text p) = Inl (PyError AttributeError)
      \<and> from_meltsfile fs (PathObj p) = Inl (PyError AttributeError))
   \<and> from_meltsfile fs (BytesIO s) = parse_meltsfile s
   \<and> from_meltsfile fs (StringIO s) = parse_meltsfile s
   \<and> (fs s = FileNotFound \<longrightarrow> from_meltsfile fs (Text s) = parse_meltsfile s)
   \<and> (from_meltsfile fs src = Inr ser \<longrightarrow>
        (\<exists>t. (src = BytesIO t \<or> src = StringIO t \<or> (src = Text t \<and> fs t = FileNotFound))
              \<and> parse_meltsfile t = Inr ser))"
  by (auto simp: from_meltsfile_def split: source.splits open_result.splits)

theorem from_meltsfile_sources_witness:
  "(\<lambda>p. if p = ''run.melts'' then Opened ''Title: B'' else FileNotFound) ''run.melts''
      = Opened ''Title: B''
   \<and> from_meltsfile (\<lambda>p. if p = ''run.melts'' then Opened ''Title: B'' else FileNotFound)
        (Text ''run.melts'') = Inl (PyError AttributeError)
   \<and> from_meltsfile (\<lambda>p. if p = ''run.melts'' then Opened ''Title: B'' else FileNotFound)
        (PathObj ''run.melts'') = Inl (PyError AttributeError)
   \<and> (\<lambda>p. if p = ''run.melts'' then Opened ''Title: B'' else FileNotFound) ''Title: A''
      = FileNotFound
   \<and> from_meltsfile (\<lambda>p. if p = ''run.melts'' then Opened ''Title: B'' else FileNotFound)
        (Text ''Title: A'') = parse_meltsfile ''Title: A''
   \<and> from_meltsfile (\<lambda>p. if p = ''run.melts'' then Opened ''Title: B'' else FileNotFound)
        (Text ''Title: A'') = Inr [(Some ''Title'', PyStr ''A'')]
   \<and> (\<exists>t. (Text ''Title: A'' = BytesIO t \<or> Text ''Title: A'' = StringIO t
            \<or> (Text ''Title: A'' = Text t
               \<and> (\<lambda>p. if p = ''run.melts'' then Opened ''Title: B'' else FileNotFound) t
                  = FileNotFound))
           \<and> parse_meltsfile t = Inr [(Some ''Title'', PyStr ''A'')])"
proof -
  let ?fs = "\<lambda>p. if p = ''run.melts'' then Opened ''Title: B'' else FileNotFound"
  have h1: "?fs ''run.melts'' = Opened ''Title: B''" by simp
  have h2: "?fs ''Title: A'' = FileNotFound" by simp
  have h3: "from_meltsfile ?fs (Text ''Title: A'') = Inr [(Some ''Title'', PyStr ''A'')]"
    by code_simp
  show ?thesis
    using h1 h2 h3
      from_meltsfile_sources [where fs = ?fs and p = "''run.melts''" and content = "''Title: B''"
        and s = "''Title: A''" and src = "Text ''Title: A''"
        and ser = "[(Some ''Title'', PyStr ''A'')]"]
    by blast
qed

section \<open>Properties of the meltsfile round trip\<close>

lemma getitem_in_series:
  assumes "k \<in> set (index ser)"
  shows "(k, getitem ser k) \<in> set ser"
proof -
  from assms obtain b where "(k, b) \<in> set ser" by (auto simp: index_def)
  then obtain v where "map_of ser k = Some v"
    using weak_map_of_SomeI by fastforce
  then show ?thesis by (auto simp: getitem_def dest: map_of_SomeD)
qed

lemma getitem_distinct:
  assumes "distinct (index ser)" "(k, v) \<in> set ser"
  shows "getitem ser k = v"
  using assms by (simp add: getitem_def index_def)

lemma composition_lines_origin:
  assumes "line \<in> set (composition_lines prefix table exclude ser)"
  shows "\<exists>k. k \<in> set (index ser) \<and> \<not> isnull (getitem ser k)
           \<and> line = prefix @ k @ '' '' @ format_val (getitem ser k)"
  using assms by (auto simp: composition_lines_def split: if_splits)

lemma condition_lines_origin:
  assumes "line \<in> set (condition_lines ser)"
  shows "\<exists>k. k \<in> set (index ser) \<and> \<not> isnull (getitem ser k)
           \<and> line = k @ '': '' @ format_val (getitem ser k)"
  using assms by (auto simp: condition_lines_def split: if_splits)

lemma path_lines_origin:
  assumes "line \<in> set (path_lines ser)"
  shows "\<exists>k c. k \<in> set (index ser) \<and> \<not> isnull (getitem ser k)
           \<and> c \<in> set [''dp/dt'', ''log fo2 path'', ''log fo2 delta''] \<and> lower k = lower c
           \<and> line = c @ '': '' @ format_val (getitem ser k)"
proof -
  from assms obtain c where c: "c \<in> set [''dp/dt'', ''log fo2 path'', ''log fo2 delta'']"
    and l: "line \<in> set (case filter (\<lambda>par. lower par = lower c) (index ser) of
                         [] \<Rightarrow> []
                       | par # _ \<Rightarrow>
                           if isnull (getitem ser par) then []
                           else [c @ '': '' @ format_val (getitem ser par)])"
    unfolding path_lines_def set_concat set_map by blast
  from l obtain par rest where f: "filter (\<lambda>par. lower par = lower c) (index ser) = par # rest"
    by (cases "filter (\<lambda>par. lower par = lower c) (index ser)") auto
  then have "par \<in> set (filter (\<lambda>par. lower par = lower c) (index ser))" by simp
  then have p: "par \<in> set (index ser)" "lower par = lower c" by auto
  from l f have "\<not> isnull (getitem ser par)" "line = c @ '': '' @ format_val (getitem ser par)"
    by (auto split: if_splits)
  with p c show ?thesis by blast
qed

lemma lines_origin:
  assumes d: "distinct (index ser)" and t: "(''Title'', PyStr ''A'') \<in> set ser"
    and l: "line \<in> set (meltsfile_lines oxides elements ser writetraces modes exclude)"
  shows "line \<in> set (map (\<lambda>m. ''Mode: '' @ m) modes)
         \<or> (\<exists>k v. (k, v) \<in> set ser \<and> v \<noteq> PyNaN \<and> line \<in> set (written_for k v))"
proof -
  have nn: "\<not> isnull v \<Longrightarrow> v \<noteq> PyNaN" for v by auto
  have ti: "''Title'' \<in> set (index ser)" using t by (force simp: index_def)
  have tv: "getitem ser ''Title'' = PyStr ''A''" using getitem_distinct [OF d t] .
  consider (title) "line = ''Title: '' @ format_val (getitem ser (title_key ser))"
    | (major) "line \<in> set (composition_lines ''Initial Composition: '' oxides exclude ser)"
    | (trace) "line \<in> set (composition_lines ''Initial Trace: '' elements exclude ser)"
    | (cond) "line \<in> set (condition_lines ser)"
    | (path) "line \<in> set (path_lines ser)"
    | (mode) "line \<in> set (map (\<lambda>m. ''Mode: '' @ m) modes)"
    using l by (auto simp: meltsfile_lines_def split: if_splits)
  then show ?thesis
  proof cases
    case title
    then have "line \<in> set (written_for ''Title'' (PyStr ''A''))"
      using ti tv by (simp add: title_key_def written_for_def)
    then show ?thesis using t by blast
  next
    case major
    from composition_lines_origin [OF this] obtain k where
      "k \<in> set (index ser)" "\<not> isnull (getitem ser k)"
      "line = ''Initial Composition: '' @ k @ '' '' @ format_val (getitem ser k)" by blast
    then have "(k, getitem ser k) \<in> set ser" "getitem ser k \<noteq> PyNaN"
      "line \<in> set (written_for k (getitem ser k))"
      using getitem_in_series nn by (auto simp: written_for_def)
    then show ?thesis by blast
  next
    case trace
    from composition_lines_origin [OF this] obtain k where
      "k \<in> set (index ser)" "\<not> isnull (getitem ser k)"
      "line = ''Initial Trace: '' @ k @ '' '' @ format_val (getitem ser k)" by blast
    then have "(k, getitem ser k) \<in> set ser" "getitem ser k \<noteq> PyNaN"
      "line \<in> set (written_for k (getitem ser k))"
      using getitem_in_series nn by (auto simp: written_for_def)
    then show ?thesis by blast
  next
    case cond
    from condition_lines_origin [OF this] obtain k where
      "k \<in> set (index ser)" "\<not> isnull (getitem ser k)"
      "line = k @ '': '' @ format_val (getitem ser k)" by blast
    then have "(k, getitem ser k) \<in> set ser" "getitem ser k \<noteq> PyNaN"
      "line \<in> set (written_for k (getitem ser k))"
      using getitem_in_series nn by (auto simp: written_for_def)
    then show ?thesis by blast
  next
    case path
    from path_lines_origin [OF this] obtain k c where
      "k \<in> set (index ser)" "\<not> isnull (getitem ser k)"
      "c \<in> set [''dp/dt'', ''log fo2 path'', ''log fo2 delta'']" "lower k = lower c"
      "line = c @ '': '' @ format_val (getitem ser k)" by blast
    then have "(k, getitem ser k) \<in> set ser" "getitem ser k \<noteq> PyNaN"
      "line \<in> set (written_for k (getitem ser k))"
      using getitem_in_series nn by (auto simp: written_for_def)
    then show ?thesis by blast
  next
    case mode
    then show ?thesis by blast
  qed
qed

lemma write_record_ABC:
  assumes "''SiO2'' \<in> set oxides" "''Title'' \<notin> set oxides" "''Initial Temperature'' \<notin> set oxides"
    "''Title'' \<notin> set elements" "''SiO2'' \<notin> set elements" "''Initial Temperature'' \<notin> set elements"
  shows "to_meltsfile oxides elements record_ABC linesep writetraces [] [] =
    Inr (''Title: A'' @ linesep @ ''Initial Composition: SiO2 50.2'' @ linesep
         @ ''Initial Temperature: 1200'')"
proof -
  have "str_float 502 1 = ''50.2''" by code_simp
  then have f: "str_float 502 (Suc 0) = ''50.2''" by simp
  have i: "str_int 1200 = ''1200''" by code_simp
  have c: "condition_lines record_ABC = [''Initial Temperature: 1200'']"
    unfolding condition_lines_def condition_keys_def record_ABC_def index_def getitem_def
    by (simp add: i)
  have p: "path_lines record_ABC = []"
    by code_simp
  have m: "composition_lines ''Initial Composition: '' oxides [] record_ABC
      = [''Initial Composition: SiO2 50.2'']"
    using assms by (simp add: composition_lines_def record_ABC_def index_def getitem_def f)
  have t: "composition_lines ''Initial Trace: '' elements [] record_ABC = []"
    using assms by (simp add: composition_lines_def record_ABC_def index_def getitem_def)
  have k: "title_key record_ABC = ''Title''" "getitem record_ABC ''Title'' = PyStr ''A''"
    "''Title'' \<in> set (index record_ABC)"
    by (simp_all add: title_key_def record_ABC_def index_def getitem_def)
  show ?thesis
    by (simp add: to_meltsfile_def meltsfile_lines_def c p m t k)
qed

lemma read_record_ABC_lf:
  "parse_meltsfile (''Title: A'' @ [CHR 0x0A] @ ''Initial Composition: SiO2 50.2'' @ [CHR 0x0A]
         @ ''Initial Temperature: 1200'')
   = Inr [(Some ''Title'', PyStr ''A''), (Some ''SiO2'', PyFloat 502 1),
          (Some ''Initial Temperature'', PyInt 1200)]"
  by code_simp

lemma read_record_ABC_crlf:
  "parse_meltsfile (''Title: A'' @ [CHR 0x0D, CHR 0x0A] @ ''Initial Composition: SiO2 50.2''
         @ [CHR 0x0D, CHR 0x0A] @ ''Initial Temperature: 1200'')
   = Inr [(Some ''Title'', PyStr ''A''), (Some ''SiO2'', PyFloat 502 1),
          (Some ''Initial Temperature'', PyInt 1200)]"
  by code_simp

text \<open>
  Claim C9. The record with \<open>Title = "A"\<close>, \<open>SiO2 = 50.2\<close> and
  \<open>Initial Temperature = 1200\<close> is written by \<open>to_meltsfile\<close> and read back by
  \<open>from_meltsfile\<close> as the same three key-value pairs, the two numbers as numbers. And
  in the output for any record containing these three fields, every line other than a
  mode line is written for a field whose value is not NaN: a field whose value is NaN
  leaves no line.
\<close>

theorem meltsfile_roundtrip:
  assumes "''SiO2'' \<in> set oxides" "''Title'' \<notin> set oxides" "''Initial Temperature'' \<notin> set oxides"
    "''Title'' \<notin> set elements" "''SiO2'' \<notin> set elements" "''Initial Temperature'' \<notin> set elements"
    and "linesep = [CHR 0x0A] \<or> linesep = [CHR 0x0D, CHR 0x0A]"
    and "distinct (index ser)" "set record_ABC \<subseteq> set ser"
  shows "write_then_read oxides elements record_ABC linesep writetraces
           = Inr (map (\<lambda>(k, v). (Some k, v)) record_ABC)
         \<and> (\<forall>line \<in> set (meltsfile_lines oxides elements ser writetraces modes exclude).
              line \<in> set (map (\<lambda>m. ''Mode: '' @ m) modes)
              \<or> (\<exists>k v. (k, v) \<in> set ser \<and> v \<noteq> PyNaN \<and> line \<in> set (written_for k v)))"
proof
  have "parse_meltsfile (''Title: A'' @ linesep @ ''Initial Composition: SiO2 50.2'' @ linesep
         @ ''Initial Temperature: 1200'') = Inr (map (\<lambda>(k, v). (Some k, v)) record_ABC)"
    using assms(7) read_record_ABC_lf read_record_ABC_crlf by (auto simp: record_ABC_def)
  then show "write_then_read oxides elements record_ABC linesep writetraces
           = Inr (map (\<lambda>(k, v). (Some k, v)) record_ABC)"
    using write_record_ABC [OF assms(1-6)]
    by (simp add: write_then_read_def from_meltsfile_def)
next
  have "(''Title'', PyStr ''A'') \<in> set ser" using assms(9) by (auto simp: record_ABC_def)
  then show "\<forall>line \<in> set (meltsfile_lines oxides elements ser writetraces modes exclude).
              line \<in> set (map (\<lambda>m. ''Mode: '' @ m) modes)
              \<or> (\<exists>k v. (k, v) \<in> set ser \<and> v \<noteq> PyNaN \<and> line \<in> set (written_for k v))"
    using lines_origin [OF assms(8)] by blast
qed

theorem meltsfile_roundtrip_witness:
  "''SiO2'' \<in> set [''SiO2'', ''MgO''] \<and> ''Title'' \<notin> set [''SiO2'', ''MgO'']
   \<and> ''Initial Temperature'' \<notin> set [''SiO2'', ''MgO'']
   \<and> ''Title'' \<notin> set [''Rb'', ''Sr''] \<and> ''SiO2'' \<notin> set [''Rb'', ''Sr'']
   \<and> ''Initial Temperature'' \<notin> set [''Rb'', ''Sr'']
   \<and> ([CHR 0x0A] = [CHR 0x0A] \<or> [CHR 0x0A] = [CHR 0x0D, CHR 0x0A])
   \<and> distinct (index (record_ABC @ [(''MgO'', PyNaN)]))
   \<and> set record_ABC \<subseteq> set (record_ABC @ [(''MgO'', PyNaN)])
   \<and> write_then_read [''SiO2'', ''MgO''] [''Rb'', ''Sr''] record_ABC [CHR 0x0A] True
       = Inr (map (\<lambda>(k, v). (Some k, v)) record_ABC)
   \<and> list_all (\<lambda>line. line \<in> set (map (\<lambda>m. ''Mode: '' @ m) [''isobaric''])
              \<or> (\<exists>k v. (k, v) \<in> set (record_ABC @ [(''MgO'', PyNaN)]) \<and> v \<noteq> PyNaN
                        \<and> line \<in> set (written_for k v)))
       (meltsfile_lines [''SiO2'', ''MgO''] [''Rb'', ''Sr''] (record_ABC @ [(''MgO'', PyNaN)])
          True [''isobaric''] [])"
proof -
  have h1: "''SiO2'' \<in> set [''SiO2'', ''MgO'']" by simp
  have h2: "''Title'' \<notin> set [''SiO2'', ''MgO'']" by simp
  have h3: "''Initial Temperature'' \<notin> set [''SiO2'', ''MgO'']" by simp
  have h4: "''Title'' \<notin> set [''Rb'', ''Sr'']" by simp
  have h5: "''SiO2'' \<notin> set [''Rb'', ''Sr'']" by simp
  have h6: "''Initial Temperature'' \<notin> set [''Rb'', ''Sr'']" by simp
  have h7: "[CHR 0x0A] = [CHR 0x0A] \<or> [CHR 0x0A] = [CHR 0x0D, CHR 0x0A]" by simp
  have h8: "distinct (index (record_ABC @ [(''MgO'', PyNaN)]))"
    by (simp add: record_ABC_def index_def)
  have h9: "set record_ABC \<subseteq> set (record_ABC @ [(''MgO'', PyNaN)])" by auto
  show ?thesis
    using h1 h2 h3 h4 h5 h6 h8 h9
      meltsfile_roundtrip [OF h1 h2 h3 h4 h5 h6 h7 h8 h9, of True "[''isobaric'']" "[]"]
    by (simp add: list_all_iff)
qed

section \<open>Properties of the heatmap margin\<close>












section \<open>Properties of the percentile contour solver\<close>

lemma length_linspace: "length (linspace a b n) = n"
  by (simp add: linspace_def)

lemma length_contour_integrals: "length (contour_integrals z n) = n"
  by (simp add: contour_integrals_def contour_thresholds_def length_linspace)

lemma length_contour_thresholds: "length (contour_thresholds z n) = n"
  by (simp add: contour_thresholds_def length_linspace)

lemma sorted_hd_Min:
  fixes l :: "real list"
  assumes "sorted l" "l \<noteq> []"
  shows "hd l = Min (set l)"
proof -
  obtain a as where l: "l = a # as" using assms(2) by (cases l) auto
  have "\<forall>y \<in> set l. a \<le> y" using assms(1) l by auto
  then have "Min (set l) = a" using l by (intro Min_eqI) auto
  then show ?thesis using l by simp
qed

lemma sorted_last_Max:
  fixes l :: "real list"
  assumes "sorted l" "l \<noteq> []"
  shows "last l = Max (set l)"
proof -
  have l: "l = butlast l @ [last l]" using assms(2) by simp
  then have "sorted (butlast l @ [last l])" using assms(1) by simp
  then have "\<forall>y \<in> set (butlast l). y \<le> last l" by (simp add: sorted_append)
  then have "\<forall>y \<in> set l. y \<le> last l" using l
    by (metis Un_iff empty_iff insert_iff list.set(1) list.set(2) order_refl set_append)
  then have "Max (set l) = last l" using assms(2) by (intro Max_eqI) auto
  then show ?thesis by simp
qed

lemma interpolant_keys:
  assumes "0 < n"
  shows "contour_interpolant z n \<noteq> []"
    and "fst (hd (contour_interpolant z n)) = Min (set (contour_integrals z n))"
    and "fst (last (contour_interpolant z n)) = Max (set (contour_integrals z n))"
proof -
  let ?S = "contour_interpolant z n"
  let ?xs = "contour_integrals z n"
  let ?ys = "contour_thresholds z n"
  have len: "length ?xs = length ?ys"
    by (simp add: length_contour_integrals length_contour_thresholds)
  have ne: "?xs \<noteq> []" using assms length_contour_integrals [of z n] by auto
  have "length ?S = n"
    by (simp add: contour_interpolant_def length_contour_integrals length_contour_thresholds)
  then show S: "?S \<noteq> []" using assms by auto
  have srt: "sorted (map fst ?S)" unfolding contour_interpolant_def by simp
  have "set (map fst ?S) = set (map fst (zip ?xs ?ys))"
    unfolding contour_interpolant_def by simp
  also have "\<dots> = set ?xs" using len by simp
  finally have st: "set (map fst ?S) = set ?xs" .
  have m: "map fst ?S \<noteq> []" using S by simp
  show "fst (hd ?S) = Min (set ?xs)"
    using sorted_hd_Min [OF srt m] st hd_map [OF S, of fst] by simp
  show "fst (last ?S) = Max (set ?xs)"
    using sorted_last_Max [OF srt m] st last_map [OF S, of fst] by simp
qed

lemma interp1d_contour:
  assumes "2 \<le> n"
  shows "interp1d (contour_integrals z n) (contour_thresholds z n) = Inr (contour_interpolant z n)"
  using assms
  by (simp add: interp1d_def contour_interpolant_def length_contour_integrals
      length_contour_thresholds)

lemma contour_unfold:
  assumes "concat z \<noteq> []" "2 \<le> n"
  shows "percentile_contour_values_from_meshz z ps n =
    (case interp1d_call (contour_interpolant z n)
            (map (\<lambda>p. p * total_mass z) (rev (sort ps))) of
       Inr t_contours \<Rightarrow>
         Inr \<lparr>labels = map Percentile (rev (sort ps)), heights = t_contours, logged = []\<rparr>
     | Inl ValueError \<Rightarrow>
         (let non_one = filter (\<lambda>v. \<not> isclose v 1) (contour_integrals z n)
          in if non_one = [] then Inl ValueError
             else bind_err (interp1d_call (contour_interpolant z n) [Max (set non_one)]) (\<lambda>c.
                    Inr \<lparr>labels = [MinLabel], heights = c, logged = [below_minimum_message]\<rparr>))
     | Inl e \<Rightarrow> Inl e)"
proof -
  have i: "interp1d (map (integral_at z) (linspace 0 (Max (set (concat z))) n))
       (linspace 0 (Max (set (concat z))) n) = Inr (contour_interpolant z n)"
    using interp1d_contour [OF assms(2), of z]
    by (simp add: contour_integrals_def contour_thresholds_def)
  show ?thesis
    unfolding percentile_contour_values_from_meshz_def Let_def total_mass_def
      contour_integrals_def contour_thresholds_def
    apply (subst if_not_P [OF assms(1)])
    apply (subst i)
    apply (subst bind_err.simps(2))
    apply (rule refl)
    done
qed

lemma interp1d_call_in_range:
  assumes "\<forall>q \<in> set qs. fst (hd f) \<le> q \<and> q \<le> fst (last f)"
  shows "interp1d_call f qs = Inr (map (np_interp f) qs)"
  using assms by (auto simp: interp1d_call_def Let_def not_less [symmetric])

lemma interp1d_call_below:
  assumes "\<exists>q \<in> set qs. q < fst (hd f)"
  shows "interp1d_call f qs = Inl ValueError"
  using assms by (simp add: interp1d_call_def Let_def)


text \<open>
  Claim C3, as amended. For a non-empty matrix and a resolution of at least two, when
  the target integral of some requested percentile lies below the smallest computed
  integral and some computed integral is not close to 1, the solver does not raise: it
  returns the single label \<open>"min"\<close>, the single height obtained by evaluating the
  interpolant at the largest computed integral that is not close to 1, and one log entry.
\<close>

theorem contour_below_minimum:
  assumes "concat z \<noteq> []" "2 \<le> n"
    and "\<exists>p \<in> set ps. p * total_mass z < Min (set (contour_integrals z n))"
    and "\<exists>v \<in> set (contour_integrals z n). \<not> isclose v 1"
  shows "percentile_contour_values_from_meshz z ps n =
    Inr \<lparr>labels = [MinLabel],
         heights = [np_interp (contour_interpolant z n)
                      (Max (set (filter (\<lambda>v. \<not> isclose v 1) (contour_integrals z n))))],
         logged = [below_minimum_message]\<rparr>"
proof -
  let ?f = "contour_interpolant z n"
  let ?non_one = "filter (\<lambda>v. \<not> isclose v 1) (contour_integrals z n)"
  have n: "0 < n" using assms(2) by simp
  have "\<exists>q \<in> set (map (\<lambda>p. p * total_mass z) (rev (sort ps))). q < fst (hd ?f)"
    using assms(3) interpolant_keys(2) [OF n, of z] by auto
  then have c1: "interp1d_call ?f (map (\<lambda>p. p * total_mass z) (rev (sort ps))) = Inl ValueError"
    by (rule interp1d_call_below)
  have nes: "set ?non_one \<noteq> {}" using assms(4) by auto
  then have ne: "?non_one \<noteq> []" by (simp only: set_empty not_False_eq_True)
  from nes have "Max (set ?non_one) \<in> set ?non_one" using Max_in [of "set ?non_one"] by blast
  then have mem: "Max (set ?non_one) \<in> set (contour_integrals z n)" by simp
  have "Min (set (contour_integrals z n)) \<le> Max (set ?non_one)"
    and "Max (set ?non_one) \<le> Max (set (contour_integrals z n))"
    using mem by auto
  then have "\<forall>q \<in> set [Max (set ?non_one)]. fst (hd ?f) \<le> q \<and> q \<le> fst (last ?f)"
    using interpolant_keys(2,3) [OF n, of z] by simp
  from interp1d_call_in_range [OF this]
  have c2: "interp1d_call ?f [Max (set ?non_one)] = Inr [np_interp ?f (Max (set ?non_one))]"
    by simp
  show ?thesis
    unfolding contour_unfold [OF assms(1,2)] c1 Let_def
    by (simp only: sum.case py_error.case if_not_P [OF ne] c2 bind_err.simps)
qed

text \<open>
  The claim as stated, that the smallest achievable integral is substituted, fails: for
  the matrix \<open>[[1, 3]]\<close> at resolution 3 the computed integrals are 4, 3, 3, the target of
  the percentile \<open>1/2\<close> is 2, and the solver returns the height 0 that belongs to the
  largest integral 4, not the height 3 that belongs to the smallest integral 3.
\<close>

theorem contour_below_minimum_counterexample:
  "(1 / 2) * total_mass [[1, 3]] < Min (set (contour_integrals [[1, 3]] 3))
   \<and> percentile_contour_values_from_meshz [[1, 3]] [1 / 2] 3
       = Inr \<lparr>labels = [MinLabel], heights = [0], logged = [below_minimum_message]\<rparr>
   \<and> Min (set (contour_integrals [[1, 3]] 3)) = 3
   \<and> np_interp (contour_interpolant [[1, 3]] 3) (Min (set (contour_integrals [[1, 3]] 3))) = 3
   \<and> Max (set (contour_integrals [[1, 3]] 3)) = 4
   \<and> np_interp (contour_interpolant [[1, 3]] 3) (Max (set (contour_integrals [[1, 3]] 3))) = 0"
  by code_simp

text \<open>
  When every computed integral is close to 1 the fallback has nothing to take the maximum
  of, and the solver raises \<open>ValueError\<close>.
\<close>

lemma contour_all_close_to_one:
  "(95 / 100) * total_mass [[1]] < Min (set (contour_integrals [[1]] 5))
   \<and> percentile_contour_values_from_meshz [[1]] [95 / 100] 5 = Inl ValueError"
  by code_simp

theorem contour_below_minimum_witness:
  "concat [[1, 3 :: real]] \<noteq> [] \<and> (2 :: nat) \<le> 3
   \<and> list_ex (\<lambda>p. p * total_mass [[1, 3]] < Min (set (contour_integrals [[1, 3]] 3))) [1 / 2]
   \<and> list_ex (\<lambda>v. \<not> isclose v 1) (contour_integrals [[1, 3]] 3)
   \<and> percentile_contour_values_from_meshz [[1, 3]] [1 / 2] 3
       = Inr \<lparr>labels = [MinLabel], heights = [0], logged = [below_minimum_message]\<rparr>"
proof -
  have h1: "concat [[1, 3 :: real]] \<noteq> []" by simp
  have h2: "(2 :: nat) \<le> 3" by simp
  have h3: "list_ex (\<lambda>p. p * total_mass [[1, 3]] < Min (set (contour_integrals [[1, 3]] 3))) [1 / 2]"
    by code_simp
  have h4: "list_ex (\<lambda>v. \<not> isclose v 1) (contour_integrals [[1, 3]] 3)"
    by code_simp
  have v: "np_interp (contour_interpolant [[1, 3]] 3)
             (Max (set (filter (\<lambda>v. \<not> isclose v 1) (contour_integrals [[1, 3]] 3)))) = 0"
    by code_simp
  have r: "percentile_contour_values_from_meshz [[1, 3]] [1 / 2] 3
       = Inr \<lparr>labels = [MinLabel], heights = [0], logged = [below_minimum_message]\<rparr>"
    using contour_below_minimum [of "[[1, 3]]" 3 "[1 / 2]"] h1 h2 h3 h4
    unfolding v by (simp add: list_ex_iff)
  show ?thesis using h1 h2 h3 h4 r by (intro conjI)
qed

subsection \<open>Monotonicity of the interpolant\<close>






















subsection \<open>The contour mass property\<close>






end
